theory Spec2Isabelle
  imports Main
begin

section \<open>The shim entry point (main.go)\<close>

text \<open>
  The entry point of kata-shim is sequential code that calls into the rest of the program
  (session construction, terminal control, signal forwarding, stdio proxying, the remote
  wait) and into libraries (flag, logrus, opentracing, sync, runtime).  The embedding takes
  the values of the command-line flags after \<^verbatim>\<open>flag.Parse()\<close> and the outcome of
  every call as an environment, and computes what \<^verbatim>\<open>realMain\<close> and \<^verbatim>\<open>main\<close> do
  with them: the sequence of calls they issue, in order, how \<^verbatim>\<open>realMain\<close> leaves, and
  the package-level variables it has assigned.
\<close>

subsection \<open>Constants\<close>

definition shimName :: string where
  "shimName = ''kata-shim''"

definition exitFailure :: int where
  "exitFailure = 1"

definition exitSuccess :: int where
  "exitSuccess = 0"

definition maxThreads :: nat where
  "maxThreads = 6"

subsection \<open>Environment of one run\<close>

text \<open>How a call that returns an error value may end: without error, with an error, or by
  panicking.\<close>

datatype call = Succeeds | Fails | Panics

text \<open>How \<^verbatim>\<open>shim.wait()\<close> may end: \<^verbatim>\<open>(exitcode, nil)\<close>, \<^verbatim>\<open>(_, err)\<close>, or a panic.
  The declared type of the exit code is not part of main.go; the conversion
  \<^verbatim>\<open>int(exitcode)\<close> is value preserving and the code is an integer here.\<close>

datatype wait_result = WaitExit int | WaitError | WaitPanics

record env =
  \<comment> \<open>flag values after \<^verbatim>\<open>flag.Parse()\<close>\<close>
  debugFlag :: bool
  traceFlag :: bool
  showVersion :: bool
  logLevel :: string
  agentAddr :: string
  container :: string
  execID :: string
  terminal :: bool
  proxyExitCode :: bool
  \<comment> \<open>the build-time variable \<^verbatim>\<open>version\<close>\<close>
  version :: string
  \<comment> \<open>\<^verbatim>\<open>os.Getenv("GOMAXPROCS")\<close> and \<^verbatim>\<open>runtime.NumCPU()\<close>\<close>
  envGOMAXPROCS :: string
  numCPU :: nat
  \<comment> \<open>whether \<^verbatim>\<open>logrus.ParseLevel(logLevel)\<close> returns an error\<close>
  parseLevelFails :: bool
  \<comment> \<open>outcomes of the calls into the rest of the program\<close>
  createTracerRes :: call
  newShimRes :: call
  setupTerminalRes :: call
  handleSignalsPanics :: bool
  proxyStdioPanics :: bool
  copyTasks :: nat
  waitRes :: wait_result

subsection \<open>Observable calls\<close>

datatype event =
    SetGOMAXPROCS nat
  | Printf string
  | LogError string
  | LogInfo string
  | LogFatal string
  | CreateTracer string
  | StartSpan string
  | SpanFinish string
  | NewShim string string string
  | SetupTerminal
  | RestoreTerminal
  | HandleSignals
  | SignalStop
  | Trace string
  | SetTag string string
  | ProxyStdio bool
  | WgWait
  | ShimWait
  | StopTracing
  | HandlePanic
  | OsExit int
  | CopyDone nat

text \<open>How \<^verbatim>\<open>realMain\<close> leaves: it returns an exit code, the process has exited inside
  it (logrus' \<^verbatim>\<open>Fatal\<close> logs and then calls \<^verbatim>\<open>os.Exit(1)\<close>), or a panic propagates
  to its caller.\<close>

datatype outcome = Return int | Exited int | Panicking

text \<open>The package-level variables \<^verbatim>\<open>debug\<close>, \<^verbatim>\<open>crashOnError\<close> and \<^verbatim>\<open>tracing\<close>.\<close>

record globals =
  debug :: bool
  crashOnError :: bool
  tracing :: bool

record result =
  events :: "event list"
  outcome :: outcome
  vars :: globals

subsection \<open>setThreads and initLogger\<close>

definition setThreads :: "env \<Rightarrow> event list" where
  "setThreads e =
     (if envGOMAXPROCS e = [] then
        (if numCPU e > maxThreads then [SetGOMAXPROCS maxThreads] else [])
      else [])"

text \<open>\<^verbatim>\<open>initLogger\<close> sets \<^verbatim>\<open>shimLog\<close> and its formatter, and returns the error of
  \<^verbatim>\<open>ParseLevel\<close> before anything is logged; otherwise it sets level, output and syslog
  hook, logs the announce entry and returns nil.  The configuration of the logger is not
  among the recorded calls: the result is the entries logged and whether it failed.  A
  log entry stands for the call of \<^verbatim>\<open>Error\<close>, \<^verbatim>\<open>Info\<close> or \<^verbatim>\<open>Fatal\<close> on the
  logger; what the sink does with it is logrus' business.\<close>

definition initLogger :: "env \<Rightarrow> event list \<times> bool" where
  "initLogger e =
     (if parseLevelFails e then ([], True) else ([LogInfo ''announce''], False))"

subsection \<open>realMain\<close>

text \<open>Leaving \<^verbatim>\<open>realMain\<close> runs its deferred calls, last deferred first, on a return as
  on a panic; \<^verbatim>\<open>os.Exit\<close> runs none.  The list \<open>ds\<close> holds the deferred calls, the
  most recent at the head.\<close>

definition leave :: "event list \<Rightarrow> outcome \<Rightarrow> event list \<times> outcome" where
  "leave ds out = (ds, out)"

definition after :: "event list \<Rightarrow> event list \<times> outcome \<Rightarrow> event list \<times> outcome" where
  "after tr r = (tr @ fst r, snd r)"

text \<open>Lines 214 to 226: the remote wait and the exit code policy.\<close>

definition waitPhase :: "env \<Rightarrow> event list \<Rightarrow> event list \<times> outcome" where
  "waitPhase e ds =
     after [ShimWait]
       (case waitRes e of
          WaitPanics \<Rightarrow> leave ds Panicking
        | WaitError \<Rightarrow> after [LogError ''failed waiting for process''] (leave ds (Return exitFailure))
        | WaitExit exitcode \<Rightarrow>
            (if proxyExitCode e then
               after [LogInfo ''using shim to proxy exit code'']
                 (if exitcode \<noteq> 0 then leave ds (Return exitcode)
                  else leave ds (Return exitSuccess))
             else leave ds (Return exitSuccess)))"

text \<open>Lines 189 to 212: signal forwarding, the stdio proxy and its join barrier.\<close>

definition stdioPhase :: "env \<Rightarrow> event list \<Rightarrow> event list \<times> outcome" where
  "stdioPhase e ds =
     after [HandleSignals]
       (if handleSignalsPanics e then leave ds Panicking
        else
          after [Trace ''proxyStdio'', SetTag ''category'' ''interactive'', ProxyStdio (terminal e)]
            (if proxyStdioPanics e then leave (SignalStop # ds) Panicking
             else
               after [WgWait, SpanFinish ''proxyStdio'']
                 (waitPhase e (SignalStop # ds))))"

text \<open>Lines 179 to 187: raw mode on standard input when a terminal was requested.\<close>

definition terminalPhase :: "env \<Rightarrow> event list \<Rightarrow> event list \<times> outcome" where
  "terminalPhase e ds =
     (if terminal e then
        after [SetupTerminal]
          (case setupTerminalRes e of
             Panics \<Rightarrow> leave ds Panicking
           | Fails \<Rightarrow> after [LogError ''failed to set raw terminal''] (leave ds (Return exitFailure))
           | Succeeds \<Rightarrow> stdioPhase e (RestoreTerminal # ds))
      else stdioPhase e ds)"

text \<open>Lines 161 to 177: the tracer, the root span and the session.\<close>

definition sessionPhase :: "env \<Rightarrow> event list \<times> outcome" where
  "sessionPhase e =
     after [CreateTracer shimName]
       (case createTracerRes e of
          Panics \<Rightarrow> leave [] Panicking
        | Fails \<Rightarrow> ([LogFatal ''failed to setup tracing'', OsExit 1], Exited 1)
        | Succeeds \<Rightarrow>
            after [StartSpan ''realMain'', NewShim (agentAddr e) (container e) (execID e)]
              (case newShimRes e of
                 Panics \<Rightarrow> leave [SpanFinish ''realMain''] Panicking
               | Fails \<Rightarrow>
                   after [LogError ''failed to create new shim'']
                     (leave [SpanFinish ''realMain''] (Return exitFailure))
               | Succeeds \<Rightarrow> terminalPhase e [SpanFinish ''realMain'']))"

text \<open>Lines 139 to 159: the emptiness check and the logger.\<close>

definition configPhase :: "env \<Rightarrow> event list \<times> outcome" where
  "configPhase e =
     (if agentAddr e = [] \<or> container e = [] \<or> execID e = [] then
        ([LogError ''container ID, exec ID and agent socket endpoint must be set''],
         Return exitFailure)
      else
        after (fst (initLogger e))
          (if snd (initLogger e) then ([LogError ''invalid log level''], Return exitFailure)
           else sessionPhase e))"

text \<open>Lines 126 to 137: the variables as \<^verbatim>\<open>flag.Parse()\<close> left them, and after the two
  assignments that follow the version check.\<close>

definition parsedVars :: "env \<Rightarrow> globals" where
  "parsedVars e = \<lparr>debug = debugFlag e, crashOnError = False, tracing = traceFlag e\<rparr>"

definition debugVars :: "env \<Rightarrow> globals" where
  "debugVars e =
     (let g = (if logLevel e = ''debug'' then (parsedVars e)\<lparr>debug := True\<rparr> else parsedVars e)
      in (if debug g then g\<lparr>crashOnError := True\<rparr> else g))"

definition realMain :: "env \<Rightarrow> result" where
  "realMain e =
     (if showVersion e then
        \<lparr>events = setThreads e @ [Printf (shimName @ '' version '' @ version e @ [CHR 0x0A])],
         outcome = Return exitSuccess,
         vars = parsedVars e\<rparr>
      else
        \<lparr>events = setThreads e @ fst (configPhase e),
         outcome = snd (configPhase e),
         vars = debugVars e\<rparr>)"

subsection \<open>main\<close>

text \<open>\<^verbatim>\<open>main\<close> defers \<^verbatim>\<open>handlePanic\<close>, runs \<^verbatim>\<open>realMain\<close>, stops tracing and exits
  with the code returned.  When the process has exited inside \<^verbatim>\<open>realMain\<close> nothing
  follows; when \<^verbatim>\<open>realMain\<close> panics the deferred \<^verbatim>\<open>handlePanic\<close> runs and the two
  statements after the call do not.\<close>

definition main :: "env \<Rightarrow> event list" where
  "main e =
     (case outcome (realMain e) of
        Return exitCode \<Rightarrow> events (realMain e) @ [StopTracing, OsExit exitCode]
      | Exited c \<Rightarrow> events (realMain e)
      | Panicking \<Rightarrow> events (realMain e) @ [HandlePanic])"

text \<open>The exit code \<^verbatim>\<open>main\<close> itself hands to \<^verbatim>\<open>os.Exit\<close>, when it gets there.\<close>

definition exitCodeOf :: "env \<Rightarrow> int option" where
  "exitCodeOf e = (case outcome (realMain e) of Return exitCode \<Rightarrow> Some exitCode | _ \<Rightarrow> None)"

subsection \<open>The stdio copy tasks and the join barrier\<close>

text \<open>
  \<^verbatim>\<open>realMain\<close> hands a fresh \<^verbatim>\<open>sync.WaitGroup\<close> to \<^verbatim>\<open>proxyStdio\<close>, which
  returns quickly while the copy tasks it started keep running, and then blocks in
  \<^verbatim>\<open>wg.Wait()\<close>.  The tasks run concurrently with the main goroutine, so a run of the
  process is an interleaving: a configuration holds the calls made so far, the calls the
  main goroutine has still to make, the WaitGroup counter and the copy tasks that are
  still running, and a schedule says who moves next.
\<close>

record conf =
  history :: "event list"
  todo :: "event list"
  wg :: nat
  running :: "nat list"

datatype choice = RunMain | FinishTask nat

text \<open>Modelled from the spec: \<^verbatim>\<open>proxyStdio\<close> is in shim.go, which is not among the
  sources.  It starts one copy task per active direction (\<open>n\<close> of them) and the
  orchestrator joins all of them: each task is added to the WaitGroup before
  \<^verbatim>\<open>proxyStdio\<close> returns.\<close>

definition proxyStdio :: "nat \<Rightarrow> conf \<Rightarrow> conf" where
  "proxyStdio n c = c\<lparr>wg := wg c + n, running := running c @ [0..<n]\<rparr>"

text \<open>Modelled from the spec: a copy task of \<^verbatim>\<open>proxyStdio\<close> copies until its source
  reports end-of-stream or an error, and then is done (\<^verbatim>\<open>wg.Done()\<close>).  A task that
  is not running does nothing.\<close>

definition finishTask :: "nat \<Rightarrow> conf \<Rightarrow> conf" where
  "finishTask i c =
     (if i \<in> set (running c) then
        c\<lparr>history := history c @ [CopyDone i], wg := wg c - 1,
          running := removeAll i (running c)\<rparr>
      else c)"

text \<open>One move of the main goroutine: its next call.  \<^verbatim>\<open>wg.Wait()\<close> returns only
  when the counter is zero; until then the main goroutine stays where it is.\<close>

definition stepMain :: "nat \<Rightarrow> conf \<Rightarrow> conf" where
  "stepMain n c =
     (case todo c of
        [] \<Rightarrow> c
      | ev # r \<Rightarrow>
          (case ev of
             ProxyStdio t \<Rightarrow> proxyStdio n (c\<lparr>history := history c @ [ev], todo := r\<rparr>)
           | WgWait \<Rightarrow>
               (if wg c = 0 then c\<lparr>history := history c @ [ev], todo := r\<rparr> else c)
           | _ \<Rightarrow> c\<lparr>history := history c @ [ev], todo := r\<rparr>))"

fun step :: "nat \<Rightarrow> conf \<Rightarrow> choice \<Rightarrow> conf" where
  "step n c RunMain = stepMain n c"
| "step n c (FinishTask i) = finishTask i c"

definition exec :: "nat \<Rightarrow> conf \<Rightarrow> choice list \<Rightarrow> conf" where
  "exec n c sched = foldl (step n) c sched"

definition start :: "env \<Rightarrow> conf" where
  "start e = \<lparr>history = [], todo = main e, wg = 0, running = []\<rparr>"

text \<open>The calls made, in order, when the process runs under a schedule.\<close>

definition interleaving :: "env \<Rightarrow> choice list \<Rightarrow> event list" where
  "interleaving e sched = history (exec (copyTasks e) (start e) sched)"

subsection \<open>Proof devices for the barrier\<close>

text \<open>The calls still to be made respect the barrier from phase \<open>p\<close> on: phase 0 is
  before \<^verbatim>\<open>proxyStdio\<close>, phase 1 between \<^verbatim>\<open>proxyStdio\<close> and \<^verbatim>\<open>wg.Wait()\<close>,
  phase 2 after \<^verbatim>\<open>wg.Wait()\<close> has returned.\<close>

fun ordered :: "nat \<Rightarrow> event list \<Rightarrow> bool" where
  "ordered p [] = True"
| "ordered p (ev # r) =
     (case ev of
        ProxyStdio t \<Rightarrow> p = 0 \<and> ordered 1 r
      | WgWait \<Rightarrow> ordered (if p = 1 then 2 else p) r
      | ShimWait \<Rightarrow> p = 2 \<and> ordered p r
      | _ \<Rightarrow> ordered p r)"

definition joined :: "nat \<Rightarrow> event list \<Rightarrow> bool" where
  "joined n pre =
     (WgWait \<in> set pre \<and> (\<exists>t. ProxyStdio t \<in> set pre) \<and> (\<forall>i<n. CopyDone i \<in> set pre))"

definition barrier_inv :: "nat \<Rightarrow> conf \<Rightarrow> bool" where
  "barrier_inv n c =
     (\<exists>p. ordered p (todo c) \<and> p \<le> 2 \<and>
        (p = 0 \<longrightarrow> running c = [] \<and> wg c = 0) \<and>
        (p = 1 \<longrightarrow> wg c = length (running c) \<and> distinct (running c) \<and>
                  (\<exists>t. ProxyStdio t \<in> set (history c)) \<and>
                  (\<forall>i<n. i \<in> set (running c) \<or> CopyDone i \<in> set (history c))) \<and>
        (p = 2 \<longrightarrow> running c = [] \<and> wg c = 0 \<and> joined n (history c)) \<and>
        (\<forall>pre post. history c = pre @ ShimWait # post \<longrightarrow> joined n pre))"

subsection \<open>Concrete runs\<close>

text \<open>The scenario of a remote process that exits with code 17 on a 64 core host, and
  variations of it.\<close>

definition remote17 :: env where
  "remote17 =
     \<lparr>debugFlag = False, traceFlag = False, showVersion = False, logLevel = ''warn'',
      agentAddr = ''sock://A'', container = ''c1'', execID = ''e1'', terminal = False,
      proxyExitCode = True, version = ''unknown'', envGOMAXPROCS = [], numCPU = 64,
      parseLevelFails = False, createTracerRes = Succeeds, newShimRes = Succeeds,
      setupTerminalRes = Succeeds, handleSignalsPanics = False, proxyStdioPanics = False,
      copyTasks = 3, waitRes = WaitExit 17\<rparr>"

definition waitFails :: env where
  "waitFails = remote17\<lparr>waitRes := WaitError\<rparr>"

definition notATerminal :: env where
  "notATerminal = remote17\<lparr>terminal := True, setupTerminalRes := Fails\<rparr>"


definition versionNoArgs :: env where
  "versionNoArgs =
     remote17\<lparr>showVersion := True, agentAddr := [], container := [], execID := []\<rparr>"

definition versionLogDebug :: env where
  "versionLogDebug = remote17\<lparr>showVersion := True, logLevel := ''debug''\<rparr>"

definition tracerFails :: env where
  "tracerFails = remote17\<lparr>createTracerRes := Fails\<rparr>"

definition noContainer :: env where
  "noContainer = remote17\<lparr>container := []\<rparr>"

definition logDebug :: env where
  "logDebug = remote17\<lparr>logLevel := ''debug''\<rparr>"

text \<open>A schedule for \<open>remote17\<close>: the main goroutine runs up to \<^verbatim>\<open>proxyStdio\<close>, two
  copy tasks end, the main goroutine tries the barrier and stays blocked, the third task
  ends, and the main goroutine runs on through the barrier to the remote wait.\<close>

definition sched17 :: "choice list" where
  "sched17 =
     replicate 9 RunMain @ [FinishTask 1, FinishTask 0, RunMain, FinishTask 2] @
     replicate 3 RunMain"

section \<open>Properties\<close>

lemmas phase_defs =
  configPhase_def sessionPhase_def terminalPhase_def stdioPhase_def waitPhase_def
  leave_def after_def initLogger_def

lemmas const_defs = shimName_def exitFailure_def exitSuccess_def maxThreads_def

subsection \<open>Helper facts\<close>

lemma reaches_wait:
  "ShimWait \<in> set (main e) \<Longrightarrow>
     \<not> showVersion e \<and> agentAddr e \<noteq> [] \<and> container e \<noteq> [] \<and> execID e \<noteq> [] \<and>
     \<not> parseLevelFails e \<and> createTracerRes e = Succeeds \<and> newShimRes e = Succeeds \<and>
     (terminal e \<longrightarrow> setupTerminalRes e = Succeeds) \<and>
     \<not> handleSignalsPanics e \<and> \<not> proxyStdioPanics e"
  by (auto simp: main_def realMain_def setThreads_def phase_defs
           split: if_splits call.splits wait_result.splits outcome.splits)

lemma main_remote17:
  "main remote17 =
     [SetGOMAXPROCS 6, LogInfo ''announce'', CreateTracer ''kata-shim'',
      StartSpan ''realMain'', NewShim ''sock://A'' ''c1'' ''e1'', HandleSignals,
      Trace ''proxyStdio'', SetTag ''category'' ''interactive'',
      ProxyStdio False, WgWait, SpanFinish ''proxyStdio'', ShimWait,
      LogInfo ''using shim to proxy exit code'', SignalStop,
      SpanFinish ''realMain'', StopTracing, OsExit 17]"
  by (simp add: main_def realMain_def setThreads_def phase_defs remote17_def const_defs)

lemma main_waitFails:
  "main waitFails =
     [SetGOMAXPROCS 6, LogInfo ''announce'', CreateTracer ''kata-shim'',
      StartSpan ''realMain'', NewShim ''sock://A'' ''c1'' ''e1'', HandleSignals,
      Trace ''proxyStdio'', SetTag ''category'' ''interactive'',
      ProxyStdio False, WgWait, SpanFinish ''proxyStdio'', ShimWait,
      LogError ''failed waiting for process'', SignalStop,
      SpanFinish ''realMain'', StopTracing, OsExit 1]"
  by (simp add: main_def realMain_def setThreads_def phase_defs waitFails_def remote17_def
        const_defs)


lemma main_notATerminal:
  "main notATerminal =
     [SetGOMAXPROCS 6, LogInfo ''announce'', CreateTracer ''kata-shim'',
      StartSpan ''realMain'', NewShim ''sock://A'' ''c1'' ''e1'', SetupTerminal,
      LogError ''failed to set raw terminal'', SpanFinish ''realMain'',
      StopTracing, OsExit 1]"
  by (simp add: main_def realMain_def setThreads_def phase_defs notATerminal_def remote17_def
        const_defs)

lemma upt3: "[0..<3] = [0, 1, 2]"
  by (simp add: upt_rec)

lemma interleaving_remote17:
  "interleaving remote17 sched17 =
     [SetGOMAXPROCS 6, LogInfo ''announce'', CreateTracer ''kata-shim'',
      StartSpan ''realMain'', NewShim ''sock://A'' ''c1'' ''e1'', HandleSignals,
      Trace ''proxyStdio'', SetTag ''category'' ''interactive'',
      ProxyStdio False, CopyDone 1, CopyDone 0, CopyDone 2, WgWait,
      SpanFinish ''proxyStdio''] @ ShimWait # []"
proof -
  have c: "copyTasks remote17 = 3" by (simp add: remote17_def)
  show ?thesis
    unfolding interleaving_def exec_def start_def main_remote17 c sched17_def
    by (simp add: stepMain_def finishTask_def proxyStdio_def upt3 numeral_eq_Suc)
qed

subsection \<open>The barrier invariant\<close>

lemma snoc_eq_split:
  "xs @ [e] = pre @ a # post \<longleftrightarrow>
     (post = [] \<and> e = a \<and> xs = pre) \<or> (\<exists>post'. post = post' @ [e] \<and> xs = pre @ a # post')"
  by (cases post rule: rev_cases) auto

lemma length_removeAll_distinct:
  "distinct xs \<Longrightarrow> i \<in> set xs \<Longrightarrow> length (removeAll i xs) = length xs - 1"
proof (induction xs)
  case Nil
  then show ?case by simp
next
  case (Cons a xs)
  show ?case
  proof (cases "i = a")
    case True
    with Cons.prems show ?thesis by simp
  next
    case False
    with Cons.prems have "i \<in> set xs" "distinct xs" by auto
    then have "length (removeAll i xs) = length xs - 1" "0 < length xs"
      using Cons.IH by (auto simp: length_pos_if_in_set)
    with False show ?thesis by simp
  qed
qed

text \<open>Every run of \<^verbatim>\<open>main\<close> calls \<^verbatim>\<open>proxyStdio\<close> at most once, and calls
  \<^verbatim>\<open>shim.wait()\<close> only behind a \<^verbatim>\<open>wg.Wait()\<close> that follows it.\<close>

lemma ordered_main: "ordered 0 (main e)"
  by (simp add: main_def realMain_def setThreads_def phase_defs
           split: if_splits call.splits wait_result.splits outcome.splits)

lemma inv_start: "barrier_inv n (start e)"
  unfolding barrier_inv_def start_def using ordered_main [of e] by auto

lemma inv_finishTask: "barrier_inv n c \<Longrightarrow> barrier_inv n (finishTask i c)"
proof (cases "i \<in> set (running c)")
  case False
  assume "barrier_inv n c" with False show ?thesis by (simp add: finishTask_def)
next
  case True
  assume "barrier_inv n c"
  then obtain p where p: "ordered p (todo c)" "p \<le> 2"
      "p = 0 \<longrightarrow> running c = [] \<and> wg c = 0"
      "p = 1 \<longrightarrow> wg c = length (running c) \<and> distinct (running c) \<and>
                  (\<exists>t. ProxyStdio t \<in> set (history c)) \<and>
                  (\<forall>i<n. i \<in> set (running c) \<or> CopyDone i \<in> set (history c))"
      "p = 2 \<longrightarrow> running c = [] \<and> wg c = 0 \<and> joined n (history c)"
      "\<forall>pre post. history c = pre @ ShimWait # post \<longrightarrow> joined n pre"
    unfolding barrier_inv_def by blast
  from True p have p1: "p = 1" by (cases "p = 0"; cases "p = 2") auto
  show ?thesis
    unfolding barrier_inv_def
    apply (rule exI [of _ 1])
    using True p p1
    by (auto simp: finishTask_def snoc_eq_split length_removeAll_distinct distinct_removeAll)
qed

lemma inv_stepMain: "barrier_inv n c \<Longrightarrow> barrier_inv n (stepMain n c)"
proof (cases "todo c")
  case Nil
  assume "barrier_inv n c" with Nil show ?thesis by (simp add: stepMain_def)
next
  case (Cons ev r)
  assume "barrier_inv n c"
  then obtain p where p: "ordered p (todo c)" "p \<le> 2"
      "p = 0 \<longrightarrow> running c = [] \<and> wg c = 0"
      "p = 1 \<longrightarrow> wg c = length (running c) \<and> distinct (running c) \<and>
                  (\<exists>t. ProxyStdio t \<in> set (history c)) \<and>
                  (\<forall>i<n. i \<in> set (running c) \<or> CopyDone i \<in> set (history c))"
      "p = 2 \<longrightarrow> running c = [] \<and> wg c = 0 \<and> joined n (history c)"
      "\<forall>pre post. history c = pre @ ShimWait # post \<longrightarrow> joined n pre"
    unfolding barrier_inv_def by blast
  have other: "barrier_inv n (c\<lparr>history := history c @ [ev], todo := r\<rparr>)"
    if "ordered p r" and "ev = ShimWait \<longrightarrow> p = 2" and "\<forall>t. ev \<noteq> ProxyStdio t"
  proof -
    show ?thesis
      unfolding barrier_inv_def
      apply (rule exI [of _ p])
      using p that
      by (auto simp: snoc_eq_split joined_def)
  qed
  show ?thesis
  proof (cases ev)
    case (ProxyStdio t)
    with p Cons have p0: "p = 0" "ordered 1 r" by auto
    show ?thesis
      unfolding barrier_inv_def
      apply (rule exI [of _ 1])
      using p p0 Cons ProxyStdio
      by (auto simp: stepMain_def proxyStdio_def snoc_eq_split)
  next
    case WgWait
    show ?thesis
    proof (cases "wg c = 0")
      case False
      with \<open>barrier_inv n c\<close> Cons WgWait show ?thesis by (simp add: stepMain_def)
    next
      case True
      from p Cons WgWait have o: "ordered (if p = 1 then 2 else p) r" by simp
      show ?thesis
        unfolding barrier_inv_def
        apply (rule exI [of _ "if p = 1 then 2 else p"])
        using p o True Cons WgWait
        by (auto simp: stepMain_def snoc_eq_split joined_def)
    qed
  qed (use p Cons other in \<open>auto simp: stepMain_def\<close>)
qed

lemma inv_step: "barrier_inv n c \<Longrightarrow> barrier_inv n (step n c ch)"
  by (cases ch) (simp_all add: inv_stepMain inv_finishTask)

lemma inv_exec: "barrier_inv n c \<Longrightarrow> barrier_inv n (exec n c sched)"
  unfolding exec_def by (induction sched arbitrary: c) (simp_all add: inv_step)

subsection \<open>Ordering of the remote wait\<close>

text \<open>
  C1.  In every interleaving of the main goroutine with the stdio copy tasks, whenever the
  call \<^verbatim>\<open>shim.wait()\<close> has been issued, the join barrier \<^verbatim>\<open>wg.Wait()\<close> has returned
  before it, \<^verbatim>\<open>proxyStdio\<close> was called before it, and every one of the copy tasks that
  \<^verbatim>\<open>proxyStdio\<close> started has finished before it.
\<close>

theorem wait_after_stdio_barrier:
  assumes "interleaving e sched = pre @ ShimWait # post"
  shows "WgWait \<in> set pre \<and> (\<exists>t. ProxyStdio t \<in> set pre) \<and>
         (\<forall>i<copyTasks e. CopyDone i \<in> set pre)"
proof -
  have "barrier_inv (copyTasks e) (exec (copyTasks e) (start e) sched)"
    by (rule inv_exec [OF inv_start])
  with assms have "joined (copyTasks e) pre"
    unfolding barrier_inv_def interleaving_def by blast
  then show ?thesis by (simp add: joined_def)
qed

text \<open>The scenario run under a schedule in which the main goroutine is held at the
  barrier until the third copy task has ended.\<close>

theorem wait_after_stdio_barrier_witness:
  "interleaving remote17 sched17 =
     [SetGOMAXPROCS 6, LogInfo ''announce'', CreateTracer ''kata-shim'',
      StartSpan ''realMain'', NewShim ''sock://A'' ''c1'' ''e1'', HandleSignals,
      Trace ''proxyStdio'', SetTag ''category'' ''interactive'',
      ProxyStdio False, CopyDone 1, CopyDone 0, CopyDone 2, WgWait,
      SpanFinish ''proxyStdio''] @ ShimWait # [] \<and>
   copyTasks remote17 = 3 \<and>
   CopyDone 0 \<in> set (butlast (interleaving remote17 sched17)) \<and>
   CopyDone 1 \<in> set (butlast (interleaving remote17 sched17)) \<and>
   CopyDone 2 \<in> set (butlast (interleaving remote17 sched17)) \<and>
   WgWait \<in> set (butlast (interleaving remote17 sched17))"
proof -
  have c: "copyTasks remote17 = 3" by (simp add: remote17_def)
  have "\<forall>i<copyTasks remote17. CopyDone i \<in> set
      [SetGOMAXPROCS 6, LogInfo ''announce'', CreateTracer ''kata-shim'',
       StartSpan ''realMain'', NewShim ''sock://A'' ''c1'' ''e1'', HandleSignals,
       Trace ''proxyStdio'', SetTag ''category'' ''interactive'',
       ProxyStdio False, CopyDone 1, CopyDone 0, CopyDone 2, WgWait,
       SpanFinish ''proxyStdio'']"
    using wait_after_stdio_barrier [OF interleaving_remote17] by blast
  with c interleaving_remote17 show ?thesis by simp
qed

subsection \<open>Exit code policy\<close>



subsection \<open>Failure of the remote wait\<close>

text \<open>
  C6.  In every run in which the remote wait call is issued and returns an error,
  \<^verbatim>\<open>main\<close> exits with the non-zero code \<^verbatim>\<open>exitFailure\<close>, the error entry
  "failed waiting for process" is logged, and the wait is issued exactly once.
\<close>

theorem wait_error_reported:
  assumes "ShimWait \<in> set (main e)" and "waitRes e = WaitError"
  shows "exitCodeOf e = Some exitFailure \<and> exitFailure \<noteq> 0 \<and>
         last (main e) = OsExit exitFailure \<and>
         LogError ''failed waiting for process'' \<in> set (main e) \<and>
         count_list (main e) ShimWait = 1"
  using reaches_wait [OF assms(1)] assms(2)
  by (simp add: exitCodeOf_def main_def realMain_def setThreads_def phase_defs const_defs)

theorem wait_error_reported_witness:
  "ShimWait \<in> set (main waitFails) \<and> waitRes waitFails = WaitError \<and>
   exitCodeOf waitFails = Some 1 \<and> last (main waitFails) = OsExit 1 \<and>
   count_list (main waitFails) ShimWait = 1"
proof -
  have a: "ShimWait \<in> set (main waitFails)" by (simp add: main_waitFails)
  have b: "waitRes waitFails = WaitError" by (simp add: waitFails_def)
  from wait_error_reported [OF a b] a b show ?thesis by (simp add: exitFailure_def)
qed

subsection \<open>The version flag\<close>

text \<open>
  C9.  In every run with the version flag set, \<^verbatim>\<open>realMain\<close> prints the program name and
  version and returns exit code 0 at once: whatever the other arguments are, it logs
  nothing (no emptiness check, no logger initialisation), creates no tracer and makes no
  connection attempt.
\<close>

theorem version_run:
  assumes "showVersion e"
  shows "events (realMain e) =
           setThreads e @ [Printf (''kata-shim version '' @ version e @ [CHR 0x0A])] \<and>
         outcome (realMain e) = Return 0 \<and>
         main e =
           setThreads e @
           [Printf (''kata-shim version '' @ version e @ [CHR 0x0A]), StopTracing, OsExit 0] \<and>
         (\<forall>m. LogError m \<notin> set (main e)) \<and> (\<forall>m. LogInfo m \<notin> set (main e)) \<and>
         (\<forall>n. CreateTracer n \<notin> set (main e)) \<and> (\<forall>a c x. NewShim a c x \<notin> set (main e))"
  using assms
  by (simp add: main_def realMain_def setThreads_def const_defs)

theorem version_run_witness:
  "showVersion versionNoArgs \<and>
   main versionNoArgs =
     [SetGOMAXPROCS 6, Printf (''kata-shim version unknown'' @ [CHR 0x0A]), StopTracing,
      OsExit 0]"
proof -
  have a: "showVersion versionNoArgs" by (simp add: versionNoArgs_def)
  have b: "setThreads versionNoArgs = [SetGOMAXPROCS 6]"
    by (simp add: setThreads_def versionNoArgs_def remote17_def const_defs)
  have c: "version versionNoArgs = ''unknown''"
    by (simp add: versionNoArgs_def remote17_def)
  from version_run [OF a] a b c show ?thesis by simp
qed

subsection \<open>The thread cap\<close>

text \<open>
  C8.  When the GOMAXPROCS environment variable is not set and the host has more than 6
  CPUs, \<^verbatim>\<open>setThreads\<close> sets GOMAXPROCS to 6; every run of \<^verbatim>\<open>main\<close> starts with the
  calls of \<^verbatim>\<open>setThreads\<close>, and 6 is the only value any run ever sets, whatever the
  host's CPU count.
\<close>

theorem setThreads_cap:
  "(envGOMAXPROCS e = [] \<and> numCPU e > 6 \<longrightarrow> setThreads e = [SetGOMAXPROCS 6]) \<and>
   take (length (setThreads e)) (main e) = setThreads e \<and>
   (\<forall>n. SetGOMAXPROCS n \<in> set (main e) \<longrightarrow> n = 6)"
proof (intro conjI allI impI)
  show "setThreads e = [SetGOMAXPROCS 6]" if "envGOMAXPROCS e = [] \<and> numCPU e > 6"
    using that by (simp add: setThreads_def maxThreads_def)
  show "take (length (setThreads e)) (main e) = setThreads e"
    by (simp add: main_def realMain_def split: outcome.splits)
  show "n = 6" if "SetGOMAXPROCS n \<in> set (main e)" for n
    using that
    by (simp add: main_def realMain_def setThreads_def phase_defs const_defs
           split: if_splits call.splits wait_result.splits outcome.splits)
qed

theorem setThreads_cap_witness:
  "envGOMAXPROCS remote17 = [] \<and> numCPU remote17 = 64 \<and>
   setThreads remote17 = [SetGOMAXPROCS 6] \<and> SetGOMAXPROCS 6 \<in> set (main remote17)"
proof -
  have a: "envGOMAXPROCS remote17 = []" by (simp add: remote17_def)
  have b: "numCPU remote17 = 64" by (simp add: remote17_def)
  have c: "SetGOMAXPROCS 6 \<in> set (main remote17)" by (simp add: main_remote17)
  have "envGOMAXPROCS remote17 = [] \<and> numCPU remote17 > 6 \<longrightarrow>
        setThreads remote17 = [SetGOMAXPROCS 6]"
    using setThreads_cap [of remote17] by (rule conjunct1)
  with a b c show ?thesis by simp
qed

subsection \<open>Terminal raw mode\<close>



text \<open>
  C3, as the claim states it, fails.  With the terminal flag set and standard input not a
  terminal, \<^verbatim>\<open>newShim\<close>, the call that creates the session on the agent's socket, has
  already been made when \<^verbatim>\<open>setupTerminal\<close> is attempted.
\<close>

theorem terminal_failure_counterexample:
  "terminal notATerminal \<and> setupTerminalRes notATerminal = Fails \<and>
   main notATerminal =
     [SetGOMAXPROCS 6, LogInfo ''announce'', CreateTracer ''kata-shim'',
      StartSpan ''realMain'', NewShim ''sock://A'' ''c1'' ''e1'', SetupTerminal,
      LogError ''failed to set raw terminal'', SpanFinish ''realMain'',
      StopTracing, OsExit 1]"
  by (simp add: main_notATerminal) (simp add: notATerminal_def)

text \<open>
  C3, amended.  In every run in which raw-mode acquisition is attempted and fails, the
  session has been created by \<^verbatim>\<open>newShim\<close> before the attempt; the failure is logged
  as "failed to set raw terminal" and \<^verbatim>\<open>main\<close> exits with the non-zero code
  \<^verbatim>\<open>exitFailure\<close> without starting signal forwarding, the stdio proxy or the remote
  wait.
\<close>

theorem terminal_failure:
  assumes "SetupTerminal \<in> set (main e)" and "setupTerminalRes e = Fails"
  shows "main e =
           setThreads e @
           [LogInfo ''announce'', CreateTracer shimName, StartSpan ''realMain'',
            NewShim (agentAddr e) (container e) (execID e), SetupTerminal,
            LogError ''failed to set raw terminal'', SpanFinish ''realMain'',
            StopTracing, OsExit exitFailure] \<and>
         exitCodeOf e = Some exitFailure \<and> exitFailure \<noteq> 0"
  using assms
  by (auto simp: exitCodeOf_def main_def realMain_def setThreads_def phase_defs const_defs
           split: if_splits call.splits wait_result.splits outcome.splits)

theorem terminal_failure_witness:
  "SetupTerminal \<in> set (main notATerminal) \<and> setupTerminalRes notATerminal = Fails \<and>
   exitCodeOf notATerminal = Some 1"
proof -
  have a: "SetupTerminal \<in> set (main notATerminal)"
    by (simp add: main_notATerminal)
  have b: "setupTerminalRes notATerminal = Fails"
    by (simp add: notATerminal_def)
  have "exitCodeOf notATerminal = Some exitFailure"
    using terminal_failure [OF a b] by simp
  with a b show ?thesis by (simp add: exitFailure_def)
qed

subsection \<open>The emptiness check\<close>

text \<open>
  C4, as the claim states it, fails.  With the version flag set and the agent address,
  container ID and exec ID all empty, \<^verbatim>\<open>main\<close> exits with code 0.
\<close>

theorem empty_config_counterexample:
  "agentAddr versionNoArgs = [] \<and> container versionNoArgs = [] \<and>
   execID versionNoArgs = [] \<and> exitCodeOf versionNoArgs = Some 0 \<and>
   main versionNoArgs =
     [SetGOMAXPROCS 6, Printf (''kata-shim version unknown'' @ [CHR 0x0A]), StopTracing,
      OsExit 0]"
  by (simp add: exitCodeOf_def main_def realMain_def setThreads_def versionNoArgs_def
        remote17_def const_defs)

text \<open>
  C4, amended.  In every run in which the agent address, the container ID or the exec ID is
  empty, no connection attempt is made; and when the version flag is not set, the only call
  after \<^verbatim>\<open>setThreads\<close> is the error log entry, and \<^verbatim>\<open>main\<close> exits with the
  non-zero code \<^verbatim>\<open>exitFailure\<close>.
\<close>

theorem empty_config:
  assumes "agentAddr e = [] \<or> container e = [] \<or> execID e = []"
  shows "(\<not> showVersion e \<longrightarrow>
            main e = setThreads e @
              [LogError ''container ID, exec ID and agent socket endpoint must be set'',
               StopTracing, OsExit exitFailure] \<and>
            exitCodeOf e = Some exitFailure \<and> exitFailure \<noteq> 0) \<and>
         (\<forall>a c x. NewShim a c x \<notin> set (main e))"
  using assms
  by (auto simp: exitCodeOf_def main_def realMain_def setThreads_def phase_defs const_defs)

theorem empty_config_witness:
  "container noContainer = [] \<and> \<not> showVersion noContainer \<and>
   exitCodeOf noContainer = Some 1"
proof -
  have a: "container noContainer = []" by (simp add: noContainer_def)
  have b: "\<not> showVersion noContainer" by (simp add: noContainer_def remote17_def)
  have d: "agentAddr noContainer = [] \<or> container noContainer = [] \<or> execID noContainer = []"
    using a by simp
  have "\<not> showVersion noContainer \<longrightarrow>
          main noContainer = setThreads noContainer @
            [LogError ''container ID, exec ID and agent socket endpoint must be set'',
             StopTracing, OsExit exitFailure] \<and>
          exitCodeOf noContainer = Some exitFailure \<and> exitFailure \<noteq> 0"
    using empty_config [OF d] by (rule conjunct1)
  with a b show ?thesis by (simp add: exitFailure_def)
qed

subsection \<open>Tracer shutdown\<close>

text \<open>
  C7, as the claim states it, fails.  When \<^verbatim>\<open>createTracer\<close> returns an error,
  \<^verbatim>\<open>realMain\<close> logs it with \<^verbatim>\<open>Fatal\<close>, which exits the process: \<^verbatim>\<open>stopTracing\<close>
  is never called in that run.
\<close>

theorem tracer_shutdown_counterexample:
  "main tracerFails =
     [SetGOMAXPROCS 6, LogInfo ''announce'', CreateTracer ''kata-shim'',
      LogFatal ''failed to setup tracing'', OsExit 1] \<and>
   count_list (main tracerFails) StopTracing = 0"
  by (simp add: main_def realMain_def setThreads_def phase_defs tracerFails_def remote17_def
        const_defs)

text \<open>
  C7, amended.  In every run of \<^verbatim>\<open>main\<close> in which \<^verbatim>\<open>realMain\<close> returns an exit
  code, \<^verbatim>\<open>stopTracing\<close> is called exactly once, after everything \<^verbatim>\<open>realMain\<close> did
  and immediately before the one call of \<^verbatim>\<open>os.Exit\<close> with that code.
\<close>

theorem tracer_shutdown:
  assumes "outcome (realMain e) = Return c"
  shows "main e = events (realMain e) @ [StopTracing, OsExit c] \<and>
         count_list (main e) StopTracing = 1 \<and>
         count_list (main e) (OsExit c) = 1"
  using assms
  by (auto simp: main_def realMain_def setThreads_def phase_defs const_defs
           split: if_splits call.splits wait_result.splits outcome.splits)

theorem tracer_shutdown_witness:
  "outcome (realMain remote17) = Return 17 \<and>
   count_list (main remote17) StopTracing = 1 \<and>
   count_list (main remote17) (OsExit 17) = 1"
proof -
  have a: "outcome (realMain remote17) = Return 17"
    by (simp add: realMain_def phase_defs remote17_def const_defs)
  have "count_list (main remote17) StopTracing = 1 \<and>
        count_list (main remote17) (OsExit 17) = 1"
    using tracer_shutdown [OF a] by (rule conjunct2)
  with a show ?thesis by simp
qed

subsection \<open>Debug mode\<close>

text \<open>
  C10, as the claim states it, fails.  With the version flag set, \<^verbatim>\<open>realMain\<close>
  returns before the log level is looked at: the log level "debug" leaves the variable
  \<^verbatim>\<open>debug\<close> false.
\<close>

theorem debug_mode_counterexample:
  "logLevel versionLogDebug = ''debug'' \<and> \<not> debug (vars (realMain versionLogDebug))"
  by (simp add: realMain_def parsedVars_def versionLogDebug_def remote17_def)

text \<open>
  C10, amended.  In every run in which the version flag is not set: when the log level is
  "debug", the variable \<^verbatim>\<open>debug\<close> is true whatever the debug flag is; and whenever
  \<^verbatim>\<open>debug\<close> is true, \<^verbatim>\<open>crashOnError\<close> is true as well.
\<close>

theorem debug_mode:
  assumes "\<not> showVersion e"
  shows "(logLevel e = ''debug'' \<longrightarrow> debug (vars (realMain e))) \<and>
         (debugFlag e \<longrightarrow> debug (vars (realMain e))) \<and>
         (debug (vars (realMain e)) \<longrightarrow> crashOnError (vars (realMain e)))"
  using assms
  by (simp add: realMain_def debugVars_def parsedVars_def Let_def)

theorem debug_mode_witness:
  "\<not> showVersion logDebug \<and> logLevel logDebug = ''debug'' \<and> \<not> debugFlag logDebug \<and>
   debug (vars (realMain logDebug)) \<and> crashOnError (vars (realMain logDebug))"
proof -
  have a: "\<not> showVersion logDebug" by (simp add: logDebug_def remote17_def)
  have b: "logLevel logDebug = ''debug''" by (simp add: logDebug_def)
  have c: "\<not> debugFlag logDebug" by (simp add: logDebug_def remote17_def)
  from debug_mode [OF a] a b c show ?thesis by simp
qed

end
